theory Spec2Isabelle
  imports
    Complex_Main
    "HOL-Library.Sublist"
    "HOL-Library.Char_ord"
    "HOL-Library.List_Lexorder"
begin

section \<open>Speaker diarization service: the request pipeline of \<^verbatim>\<open>diar-service/app.py\<close>\<close>

text \<open>
  The development embeds the two operations of \<^verbatim>\<open>app.py\<close> that carry the design:
  \<^verbatim>\<open>load_pipeline\<close> (startup: loading the engine and applying the hyperparameter
  overrides) and \<^verbatim>\<open>process_audio\<close> (the \<^verbatim>\<open>/process\<close> handler: validation, staging,
  invocation, normalisation, cleanup), together with \<^verbatim>\<open>health_check\<close>.

  Conventions of the embedding:
  \<^item> Python \<^verbatim>\<open>str\<close> is \<^typ>\<open>string\<close>; \<^verbatim>\<open>Optional[str]\<close> is \<^typ>\<open>string option\<close>.
    Characters are bytes, so \<^verbatim>\<open>str.lower\<close> is modelled on the ASCII letters only.
  \<^item> Python \<^verbatim>\<open>float\<close> is \<^typ>\<open>real\<close>: subtraction and \<^verbatim>\<open>max\<close> are exact, rounding
    and NaN are not modelled.
  \<^item> An exception (any subclass of \<^verbatim>\<open>Exception\<close>) is the value \<open>Exception msg\<close>, where
    \<open>msg\<close> is what \<^verbatim>\<open>str(e)\<close> returns; a function that may raise returns a sum with
    \<open>Inl\<close> for the exception.
  \<^item> Everything outside the repository (the temporary-file facility, the upload stream, the
    diarization engine, \<^verbatim>\<open>os.remove\<close>, the model loader) is a field of an environment
    record giving the outcome of the call; the theorems quantify over all environments.
\<close>

subsection \<open>Strings: the library functions the handler calls\<close>

text \<open>\<^verbatim>\<open>str.rfind(c)\<close> for a one-character needle: the last index of \<open>c\<close>, or \<open>-1\<close>.\<close>

fun rfind_from :: "string \<Rightarrow> char \<Rightarrow> int \<Rightarrow> int \<Rightarrow> int" where
  "rfind_from [] c i found = found"
| "rfind_from (x # xs) c i found = rfind_from xs c (i + 1) (if x = c then i else found)"

definition rfind :: "string \<Rightarrow> char \<Rightarrow> int" where
  "rfind p c = rfind_from p c 0 (- 1)"

text \<open>
  \<^verbatim>\<open>os.path.splitext\<close> (POSIX flavour, \<^verbatim>\<open>genericpath._splitext\<close> with separator \<^verbatim>\<open>/\<close>
  and extension separator \<^verbatim>\<open>.\<close>): the extension starts at the last dot, provided that
  dot comes after the last separator and is preceded, within the last path component, by
  a character that is not a dot. The loop below is the library's loop that skips leading
  dots.
\<close>

function skip_leading_dots :: "string \<Rightarrow> int \<Rightarrow> int \<Rightarrow> bool" where
  "skip_leading_dots p filenameIndex dotIndex =
     (if 0 \<le> filenameIndex \<and> filenameIndex < dotIndex then
        (if p ! nat filenameIndex \<noteq> CHR ''.'' then True
         else skip_leading_dots p (filenameIndex + 1) dotIndex)
      else False)"
  by pat_completeness auto
termination
  by (relation "measure (\<lambda>(p, filenameIndex, dotIndex). nat (dotIndex - filenameIndex))") auto

definition splitext :: "string \<Rightarrow> string \<times> string" where
  "splitext p =
     (let sepIndex = rfind p CHR ''/'';
          dotIndex = rfind p CHR ''.''
      in if dotIndex > sepIndex \<and> skip_leading_dots p (sepIndex + 1) dotIndex
         then (take (nat dotIndex) p, drop (nat dotIndex) p)
         else (p, []))"

text \<open>\<^verbatim>\<open>str.lower\<close>, on ASCII.\<close>

definition lower_char :: "char \<Rightarrow> char" where
  "lower_char c =
     (let n = (of_char c :: nat) in if 65 \<le> n \<and> n \<le> 90 then char_of (n + 32) else c)"

definition lower :: "string \<Rightarrow> string" where
  "lower s = map lower_char s"

text \<open>\<^verbatim>\<open>sep.join(xs)\<close>.\<close>

fun join :: "string \<Rightarrow> string list \<Rightarrow> string" where
  "join sep [] = []"
| "join sep [x] = x"
| "join sep (x # y # ys) = x @ sep @ join sep (y # ys)"

text \<open>\<^verbatim>\<open>str(n)\<close> for a non-negative integer such as \<^verbatim>\<open>len(segments)\<close>.\<close>

definition digit_char :: "nat \<Rightarrow> char" where
  "digit_char d = char_of (48 + d)"

function str_nat :: "nat \<Rightarrow> string" where
  "str_nat n = (if n < 10 then [digit_char n] else str_nat (n div 10) @ [digit_char (n mod 10)])"
  by pat_completeness auto
termination
  by (relation "measure id") auto

text \<open>The two recursive equations are unfolded on demand only.\<close>

declare str_nat.simps [simp del]

declare skip_leading_dots.simps [simp del]

subsection \<open>Exceptions and HTTP errors\<close>

datatype exn = Exception string

fun str_exn :: "exn \<Rightarrow> string" where
  "str_exn (Exception msg) = msg"

text \<open>\<^verbatim>\<open>HTTPException(status_code, detail)\<close> of FastAPI: what the client sees on failure.\<close>

datatype http_exception = HTTPException int string

fun status_code :: "http_exception \<Rightarrow> int" where
  "status_code (HTTPException c d) = c"

fun detail :: "http_exception \<Rightarrow> string" where
  "detail (HTTPException c d) = d"

subsection \<open>Upload validation (\<^verbatim>\<open>process_audio\<close>, the block under ``Validate file type'')\<close>

text \<open>The set literal \<^verbatim>\<open>audio_extensions\<close>, in the order it is written.\<close>

definition audio_extensions :: "string list" where
  "audio_extensions =
     [''.wav'', ''.mp3'', ''.m4a'', ''.flac'', ''.ogg'', ''.aac'', ''.wma'', ''.opus'',
      ''.mp4'', ''.m4v'']"

text \<open>\<^verbatim>\<open>content_type and content_type.startswith('audio/')\<close>, as a truth value.\<close>

definition is_audio_content_type :: "string option \<Rightarrow> bool" where
  "is_audio_content_type content_type =
     (case content_type of
        None \<Rightarrow> False
      | Some ct \<Rightarrow> ct \<noteq> [] \<and> prefix ''audio/'' ct)"

text \<open>\<^verbatim>\<open>x or default\<close> for an optional string: \<^verbatim>\<open>None\<close> and the empty string are falsy.\<close>

definition or_else :: "string option \<Rightarrow> string \<Rightarrow> string" where
  "or_else x d = (case x of None \<Rightarrow> d | Some s \<Rightarrow> if s = [] then d else s)"

text \<open>The f-string \<^verbatim>\<open>{content_type}\<close>: \<^verbatim>\<open>None\<close> prints as \<^verbatim>\<open>None\<close>.\<close>

definition fmt_opt :: "string option \<Rightarrow> string" where
  "fmt_opt x = (case x of None \<Rightarrow> ''None'' | Some s \<Rightarrow> s)"

definition extension_error_detail :: "string option \<Rightarrow> string" where
  "extension_error_detail content_type =
     ''Invalid file type: '' @ or_else content_type ''unknown''
       @ ''. Expected audio file (supported extensions: ''
       @ join '', '' (sort audio_extensions) @ '').''"

definition validate_file_type :: "string option \<Rightarrow> string option \<Rightarrow> http_exception + unit" where
  "validate_file_type content_type filename =
     (if \<not> is_audio_content_type content_type then
        (if content_type = None \<or> content_type = Some ''application/octet-stream'' then
           (let fname = or_else filename [];
                file_ext = lower (snd (splitext fname))
            in if file_ext \<notin> set audio_extensions
               then Inl (HTTPException 400 (extension_error_detail content_type))
               else Inr ())
         else Inl (HTTPException 400
                (''Invalid file type: '' @ fmt_opt content_type @ ''. Expected audio file.'')))
      else Inr ())"

subsection \<open>The engine's parameter set\<close>

text \<open>
  \<^verbatim>\<open>pipeline.parameters(instantiated=True)\<close> returns a nested dictionary. A value in it
  is a number, a string or a dictionary; the code tests \<^verbatim>\<open>key in value\<close> and assigns
  \<^verbatim>\<open>value[key] = const\<close>, and what these do depends on which of the three the value is.
\<close>

datatype pvalue = PNum real | PStr string | PDict "string \<Rightarrow> pvalue option"

type_synonym hparams = "string \<Rightarrow> pvalue option"

definition type_error_not_iterable :: exn where
  "type_error_not_iterable =
     Exception (''argument of type '' @ [CHR 0x27] @ ''float'' @ [CHR 0x27] @ '' is not iterable'')"

definition type_error_item_assignment :: "string \<Rightarrow> exn" where
  "type_error_item_assignment ty =
     Exception ([CHR 0x27] @ ty @ [CHR 0x27] @ '' object does not support item assignment'')"

text \<open>\<^verbatim>\<open>key in value\<close>: membership in a dictionary's keys, substring test on a string,
  \<^verbatim>\<open>TypeError\<close> on a number.\<close>

fun py_contains :: "pvalue \<Rightarrow> string \<Rightarrow> exn + bool" where
  "py_contains (PDict d) key = Inr (d key \<noteq> None)"
| "py_contains (PStr s) key = Inr (sublist key s)"
| "py_contains (PNum x) key = Inl type_error_not_iterable"

text \<open>\<^verbatim>\<open>value[key] = v\<close>.\<close>

fun py_setitem :: "pvalue \<Rightarrow> string \<Rightarrow> pvalue \<Rightarrow> exn + pvalue" where
  "py_setitem (PDict d) key v = Inr (PDict (d(key \<mapsto> v)))"
| "py_setitem (PStr s) key v = Inl (type_error_item_assignment ''str'')"
| "py_setitem (PNum x) key v = Inl (type_error_item_assignment ''float'')"

subsection \<open>Responses, the environment and the state of the service\<close>

text \<open>One raw turn of the engine: \<^verbatim>\<open>(turn.start, turn.end, speaker)\<close>.\<close>

type_synonym raw_turn = "real \<times> real \<times> string"

text \<open>\<^verbatim>\<open>SpeakerSegment\<close>; the field \<^verbatim>\<open>end\<close> is \<open>end_time\<close> here.\<close>

record speaker_segment =
  speaker :: string
  start :: real
  end_time :: real
  duration :: real

record diarization_response =
  success :: bool
  segments :: "speaker_segment list"
  total_speakers :: int
  total_duration :: real
  message :: "string option"

record health =
  status :: string
  service :: string
  pipeline_loaded :: bool

text \<open>\<^verbatim>\<open>UploadFile\<close>: the declared media type, the filename, and what
  \<^verbatim>\<open>await audio.read()\<close> gives.\<close>

record upload_file =
  content_type :: "string option"
  filename :: "string option"
  read :: "exn + string"

datatype level = INFO | WARNING | ERROR

text \<open>Every call that leaves the process is recorded, in order.\<close>

datatype event =
    NamedTemporaryFile string
  | Read
  | Write string
  | EngineCall string int int int
  | Remove string

text \<open>
  The module constants \<^verbatim>\<open>CLUSTERING_THRESHOLD\<close>, \<^verbatim>\<open>SEG_MIN_DURATION_ON\<close>, ...
  (``developer tunable'': \<^verbatim>\<open>None\<close> means the pipeline default).
\<close>

record tunables =
  CLUSTERING_THRESHOLD :: "real option"
  SEG_MIN_DURATION_ON :: "real option"
  SEG_MIN_DURATION_OFF :: "real option"
  SEG_THRESHOLD :: "real option"
  SEG_ONSET :: "real option"
  SEG_OFFSET :: "real option"

definition source_tunables :: tunables where
  "source_tunables =
     \<lparr>CLUSTERING_THRESHOLD = Some 0.80, SEG_MIN_DURATION_ON = Some 0.0,
      SEG_MIN_DURATION_OFF = Some 0.0, SEG_THRESHOLD = None, SEG_ONSET = Some 0.1,
      SEG_OFFSET = Some 0.1\<rparr>"

text \<open>
  The environment: the outcome of every call into code outside the repository. The
  engine object of type \<open>'p\<close> is opaque.
  \<^item> \<open>getenv_HF_TOKEN\<close>: \<^verbatim>\<open>os.getenv("HF_TOKEN")\<close>;
  \<^item> \<open>from_pretrained name token\<close>: \<^verbatim>\<open>Pipeline.from_pretrained(name, token=token)\<close>, the token
    argument left out when \<open>token = None\<close>;
  \<^item> \<open>parameters p\<close>: \<^verbatim>\<open>p.parameters(instantiated=True)\<close>, a fresh dictionary;
  \<^item> \<open>instantiate p hp\<close>: \<^verbatim>\<open>p.instantiate(hp)\<close>, giving the re-instantiated engine;
  \<^item> \<open>str_float\<close>: how an f-string prints a float;
  \<^item> \<open>named_temporary_file suffix\<close>: \<^verbatim>\<open>tempfile.NamedTemporaryFile(delete=False, suffix=suffix)\<close>,
    the name of the file created;
  \<^item> \<open>tmp_write path content\<close>: \<^verbatim>\<open>tmp_file.write(content)\<close>;
  \<^item> \<open>diarize p path n lo hi\<close>: \<^verbatim>\<open>p(path, num_speakers=n, min_speakers=lo, max_speakers=hi)\<close>
    and the iteration over \<^verbatim>\<open>.speaker_diarization\<close>;
  \<^item> \<open>os_remove path\<close>: \<^verbatim>\<open>os.remove(path)\<close>.
\<close>

record 'p env =
  getenv_HF_TOKEN :: "string option"
  from_pretrained :: "string \<Rightarrow> string option \<Rightarrow> exn + 'p"
  parameters :: "'p \<Rightarrow> hparams"
  instantiate :: "'p \<Rightarrow> hparams \<Rightarrow> exn + 'p"
  str_float :: "real \<Rightarrow> string"
  named_temporary_file :: "string \<Rightarrow> exn + string"
  tmp_write :: "string \<Rightarrow> string \<Rightarrow> exn option"
  diarize :: "'p \<Rightarrow> string \<Rightarrow> int \<Rightarrow> int \<Rightarrow> int \<Rightarrow> exn + raw_turn list"
  os_remove :: "string \<Rightarrow> exn option"

text \<open>
  The state: the global \<^verbatim>\<open>pipeline\<close>, the files of the temporary area with their
  contents, what the logger received, and the record of outside calls.
\<close>

record 'p world =
  pipeline :: "'p option"
  fs :: "string \<Rightarrow> string option"
  logged :: "(level \<times> string) list"
  trace :: "event list"

definition log_to :: "level \<Rightarrow> string \<Rightarrow> 'p world \<Rightarrow> 'p world" where
  "log_to lv msg w = w\<lparr>logged := logged w @ [(lv, msg)]\<rparr>"

definition record_event :: "event \<Rightarrow> 'p world \<Rightarrow> 'p world" where
  "record_event ev w = w\<lparr>trace := trace w @ [ev]\<rparr>"

subsection \<open>\<^verbatim>\<open>load_pipeline\<close>: loading the engine and applying the overrides\<close>

definition any_tunable :: "tunables \<Rightarrow> bool" where
  "any_tunable tun =
     (CLUSTERING_THRESHOLD tun \<noteq> None \<or> SEG_MIN_DURATION_ON tun \<noteq> None
      \<or> SEG_MIN_DURATION_OFF tun \<noteq> None \<or> SEG_THRESHOLD tun \<noteq> None
      \<or> SEG_ONSET tun \<noteq> None \<or> SEG_OFFSET tun \<noteq> None)"

text \<open>
  The clustering override:
  \<^verbatim>\<open>if CLUSTERING_THRESHOLD is not None and "clustering" in hparams
        and "threshold" in hparams["clustering"]:
      hparams["clustering"]["threshold"] = CLUSTERING_THRESHOLD\<close>
  The result is the updated dictionary and the lines logged, or the exception raised.
\<close>

definition set_clustering ::
  "'p env \<Rightarrow> tunables \<Rightarrow> hparams \<Rightarrow> exn + hparams \<times> (level \<times> string) list" where
  "set_clustering ev tun hp =
     (case CLUSTERING_THRESHOLD tun of
        None \<Rightarrow> Inr (hp, [])
      | Some v \<Rightarrow>
          (case hp ''clustering'' of
             None \<Rightarrow> Inr (hp, [])
           | Some c \<Rightarrow>
               (case py_contains c ''threshold'' of
                  Inl e \<Rightarrow> Inl e
                | Inr False \<Rightarrow> Inr (hp, [])
                | Inr True \<Rightarrow>
                    (case py_setitem c ''threshold'' (PNum v) of
                       Inl e \<Rightarrow> Inl e
                     | Inr c' \<Rightarrow>
                         Inr (hp(''clustering'' \<mapsto> c'),
                              [(INFO, ''Clustering threshold set to '' @ str_float ev v)])))))"

text \<open>The list the segmentation loop runs over, in its order.\<close>

definition seg_overrides :: "tunables \<Rightarrow> (real option \<times> string) list" where
  "seg_overrides tun =
     [(SEG_MIN_DURATION_ON tun, ''min_duration_on''),
      (SEG_MIN_DURATION_OFF tun, ''min_duration_off''),
      (SEG_THRESHOLD tun, ''threshold''),
      (SEG_ONSET tun, ''onset''),
      (SEG_OFFSET tun, ''offset'')]"

text \<open>
  The loop \<^verbatim>\<open>for const, key in [...]: if const is not None and key in seg: seg[key] = const\<close>,
  on a \<^verbatim>\<open>seg\<close> that is a dictionary.
\<close>

fun set_segmentation ::
  "'p env \<Rightarrow> (real option \<times> string) list \<Rightarrow> (string \<Rightarrow> pvalue option) \<Rightarrow> (level \<times> string) list
     \<Rightarrow> (string \<Rightarrow> pvalue option) \<times> (level \<times> string) list" where
  "set_segmentation ev [] seg lg = (seg, lg)"
| "set_segmentation ev ((const, key) # rest) seg lg =
     (case const of
        None \<Rightarrow> set_segmentation ev rest seg lg
      | Some v \<Rightarrow>
          if seg key \<noteq> None
          then set_segmentation ev rest (seg(key \<mapsto> PNum v))
                 (lg @ [(INFO, ''Segmentation '' @ key @ '' set to '' @ str_float ev v)])
          else set_segmentation ev rest seg lg)"

text \<open>\<^verbatim>\<open>seg = hparams.get("segmentation")\<close> with the \<^verbatim>\<open>isinstance(seg, dict)\<close> guard.\<close>

definition apply_segmentation ::
  "'p env \<Rightarrow> tunables \<Rightarrow> hparams \<Rightarrow> hparams \<times> (level \<times> string) list" where
  "apply_segmentation ev tun hp =
     (case hp ''segmentation'' of
        Some (PDict seg) \<Rightarrow>
          (let (seg', lg) = set_segmentation ev (seg_overrides tun) seg []
           in (hp(''segmentation'' \<mapsto> PDict seg'), lg))
      | _ \<Rightarrow> (hp, []))"

definition logs :: "(level \<times> string) list \<Rightarrow> 'p world \<Rightarrow> 'p world" where
  "logs lg w = w\<lparr>logged := logged w @ lg\<rparr>"

text \<open>The handler of the \<^verbatim>\<open>except\<close> clause of \<^verbatim>\<open>load_pipeline\<close>: log and re-raise.\<close>

definition load_failed :: "exn \<Rightarrow> 'p world \<Rightarrow> (exn + unit) \<times> 'p world" where
  "load_failed e w = (Inl e, log_to ERROR (''Failed to load pipeline: '' @ str_exn e) w)"

text \<open>The part of \<^verbatim>\<open>load_pipeline\<close> under \<^verbatim>\<open>if any_tunable:\<close>.\<close>

definition apply_tunables :: "'p env \<Rightarrow> tunables \<Rightarrow> 'p \<Rightarrow> 'p world \<Rightarrow> (exn + unit) \<times> 'p world" where
  "apply_tunables ev tun p w =
     (let hparams = parameters ev p in
      case set_clustering ev tun hparams of
        Inl e \<Rightarrow> load_failed e w
      | Inr (hp1, lg1) \<Rightarrow>
          (let (hp2, lg2) = apply_segmentation ev tun hp1;
               w1 = logs lg2 (logs lg1 w)
           in case instantiate ev p hp2 of
                Inl e \<Rightarrow> load_failed e w1
              | Inr p' \<Rightarrow> (Inr (), w1\<lparr>pipeline := Some p'\<rparr>)))"

definition model_name :: string where
  "model_name = ''pyannote/speaker-diarization-community-1''"

text \<open>\<^verbatim>\<open>if hf_token:\<close> on an optional string.\<close>

definition truthy :: "string option \<Rightarrow> bool" where
  "truthy x = (case x of None \<Rightarrow> False | Some s \<Rightarrow> s \<noteq> [])"

text \<open>The token argument \<^verbatim>\<open>from_pretrained\<close> is called with: none when the variable
  is unset or empty.\<close>

definition token_argument :: "'p env \<Rightarrow> string option" where
  "token_argument ev = (if truthy (getenv_HF_TOKEN ev) then getenv_HF_TOKEN ev else None)"

definition load_pipeline :: "'p env \<Rightarrow> tunables \<Rightarrow> 'p world \<Rightarrow> (exn + unit) \<times> 'p world" where
  "load_pipeline ev tun w =
     (let w0 = log_to INFO ''Loading pyannote-audio pipeline...'' w;
          w1 = (if truthy (getenv_HF_TOKEN ev) then w0
                else log_to WARNING
                  ''HF_TOKEN not set, attempting to load without token (may fail if model requires authentication)''
                  w0)
      in case from_pretrained ev model_name (token_argument ev) of
           Inl e \<Rightarrow> load_failed e w1
         | Inr p \<Rightarrow>
             (let w2 = log_to INFO ''Pipeline loaded successfully!'' (w1\<lparr>pipeline := Some p\<rparr>)
              in if any_tunable tun then apply_tunables ev tun p w2 else (Inr (), w2)))"

subsection \<open>\<^verbatim>\<open>health_check\<close>\<close>

definition health_check :: "'p world \<Rightarrow> health" where
  "health_check w =
     \<lparr>status = ''healthy'', service = ''pyannote-audio'', pipeline_loaded = (pipeline w \<noteq> None)\<rparr>"

subsection \<open>\<^verbatim>\<open>process_audio\<close>\<close>

text \<open>
  The loop under ``Extract segments'': the accumulator is
  \<^verbatim>\<open>(segments, speakers, total_duration)\<close>, started at \<^verbatim>\<open>([], set(), 0.0)\<close>.
\<close>

fun extract_segments ::
  "raw_turn list \<Rightarrow> speaker_segment list \<times> string set \<times> real
     \<Rightarrow> speaker_segment list \<times> string set \<times> real" where
  "extract_segments [] acc = acc"
| "extract_segments ((t_start, t_end, spk) # rest) (segs, speakers, total_dur) =
     extract_segments rest
       (segs @ [\<lparr>speaker = spk, start = t_start, end_time = t_end, duration = t_end - t_start\<rparr>],
        insert spk speakers,
        max total_dur t_end)"

text \<open>\<^verbatim>\<open>suffix = os.path.splitext(audio.filename or "audio")[1] or ".wav"\<close>.\<close>

definition temp_suffix :: "upload_file \<Rightarrow> string" where
  "temp_suffix audio =
     (let ext = snd (splitext (or_else (filename audio) ''audio''))
      in if ext = [] then ''.wav'' else ext)"

text \<open>
  The body of the \<^verbatim>\<open>try\<close>: staging, invocation, normalisation. It returns the value
  of the variable \<^verbatim>\<open>temp_file\<close> when the block is left, the response or the exception
  raised, and the state.
\<close>

definition try_block ::
  "'p env \<Rightarrow> 'p \<Rightarrow> upload_file \<Rightarrow> 'p world
     \<Rightarrow> string option \<times> (exn + diarization_response) \<times> 'p world" where
  "try_block ev p audio w =
     (let suffix = temp_suffix audio;
          w1 = record_event (NamedTemporaryFile suffix) w
      in case named_temporary_file ev suffix of
           Inl e \<Rightarrow> (None, Inl e, w1)
         | Inr temp_file \<Rightarrow>
             (let w2 = record_event Read (w1\<lparr>fs := (fs w1)(temp_file \<mapsto> [])\<rparr>)
              in case read audio of
                   Inl e \<Rightarrow> (Some temp_file, Inl e, w2)
                 | Inr content \<Rightarrow>
                     (let w3 = record_event (Write temp_file) w2
                      in case tmp_write ev temp_file content of
                           Some e \<Rightarrow> (Some temp_file, Inl e, w3)
                         | None \<Rightarrow>
                             (let w4 = log_to INFO
                                    (''Processing audio file: '' @ fmt_opt (filename audio)
                                       @ '' ('' @ str_nat (length content) @ '' bytes)'')
                                    (w3\<lparr>fs := (fs w3)(temp_file \<mapsto> content)\<rparr>);
                                  w5 = record_event (EngineCall temp_file 2 2 2) w4
                              in case diarize ev p temp_file 2 2 2 of
                                   Inl e \<Rightarrow> (Some temp_file, Inl e, w5)
                                 | Inr turns \<Rightarrow>
                                     (let (segs, speakers, total_dur) =
                                            extract_segments turns ([], {}, 0);
                                          w6 = log_to INFO
                                            (''Processed '' @ str_nat (length segs)
                                               @ '' segments from '' @ str_nat (card speakers)
                                               @ '' speakers'') w5
                                      in (Some temp_file,
                                          Inr \<lparr>success = True, segments = segs,
                                               total_speakers = int (card speakers),
                                               total_duration = total_dur,
                                               message = Some (''Successfully processed ''
                                                 @ str_nat (length segs) @ '' segments'')\<rparr>,
                                          w6))))))"

text \<open>
  The \<^verbatim>\<open>finally\<close> clause:
  \<^verbatim>\<open>if temp_file and os.path.exists(temp_file):
      try: os.remove(temp_file)
      except Exception as e: logger.warning(...)\<close>
\<close>

definition finally_block :: "'p env \<Rightarrow> string option \<Rightarrow> 'p world \<Rightarrow> 'p world" where
  "finally_block ev temp_file w =
     (case temp_file of
        None \<Rightarrow> w
      | Some t \<Rightarrow>
          if t \<noteq> [] \<and> fs w t \<noteq> None then
            (let w1 = record_event (Remove t) w
             in case os_remove ev t of
                  None \<Rightarrow> w1\<lparr>fs := (fs w1)(t := None)\<rparr>
                | Some e \<Rightarrow> log_to WARNING (''Failed to remove temp file: '' @ str_exn e) w1)
          else w)"

text \<open>
  The handler. Its result is what the client sees: the \<^verbatim>\<open>HTTPException\<close> raised or the
  \<^verbatim>\<open>DiarizationResponse\<close> returned.
\<close>

definition process_audio ::
  "'p env \<Rightarrow> upload_file \<Rightarrow> 'p world \<Rightarrow> (http_exception + diarization_response) \<times> 'p world" where
  "process_audio ev audio w =
     (case pipeline w of
        None \<Rightarrow> (Inl (HTTPException 503 ''Pipeline not loaded. Please check server logs.''), w)
      | Some p \<Rightarrow>
          (case validate_file_type (content_type audio) (filename audio) of
             Inl h \<Rightarrow> (Inl h, w)
           | Inr u \<Rightarrow>
               (let (temp_file, r, w1) = try_block ev p audio w
                in case r of
                     Inr resp \<Rightarrow> (Inr resp, finally_block ev temp_file w1)
                   | Inl e \<Rightarrow>
                       (let msg = ''Error processing audio: '' @ str_exn e
                        in (Inl (HTTPException 500 msg),
                            finally_block ev temp_file (log_to ERROR msg w1))))))"

subsection \<open>Notions the properties are stated with\<close>

text \<open>The engine invocations among the recorded calls.\<close>

fun is_engine_call :: "event \<Rightarrow> bool" where
  "is_engine_call (EngineCall path n lo hi) = True"
| "is_engine_call other = False"

text \<open>
  The segment the specification asks for one raw turn: the same speaker, start and end,
  and the duration \<open>end - start\<close>.
\<close>

definition segment_of :: "raw_turn \<Rightarrow> speaker_segment" where
  "segment_of turn =
     (case turn of (t_start, t_end, spk) \<Rightarrow>
        \<lparr>speaker = spk, start = t_start, end_time = t_end, duration = t_end - t_start\<rparr>)"

definition turn_end :: "raw_turn \<Rightarrow> real" where
  "turn_end turn = fst (snd turn)"

definition turn_speaker :: "raw_turn \<Rightarrow> string" where
  "turn_speaker turn = snd (snd turn)"

text \<open>
  The specification's reading of the overrides: \<open>override_for tun sec key\<close> is the value
  the tunables specify for the parameter \<open>key\<close> of the section \<open>sec\<close>, if any; a target
  key exists when its section is a dictionary that has the key; the merged parameter set
  replaces exactly the existing keys that have a specified override.
\<close>

definition override_for :: "tunables \<Rightarrow> string \<Rightarrow> string \<Rightarrow> real option" where
  "override_for tun sec key =
     (if sec = ''clustering'' \<and> key = ''threshold'' then CLUSTERING_THRESHOLD tun
      else if sec = ''segmentation'' \<and> key = ''min_duration_on'' then SEG_MIN_DURATION_ON tun
      else if sec = ''segmentation'' \<and> key = ''min_duration_off'' then SEG_MIN_DURATION_OFF tun
      else if sec = ''segmentation'' \<and> key = ''threshold'' then SEG_THRESHOLD tun
      else if sec = ''segmentation'' \<and> key = ''onset'' then SEG_ONSET tun
      else if sec = ''segmentation'' \<and> key = ''offset'' then SEG_OFFSET tun
      else None)"

definition key_exists :: "hparams \<Rightarrow> string \<Rightarrow> string \<Rightarrow> bool" where
  "key_exists hp sec key = (case hp sec of Some (PDict d) \<Rightarrow> d key \<noteq> None | _ \<Rightarrow> False)"

definition lookup_param :: "hparams \<Rightarrow> string \<Rightarrow> string \<Rightarrow> pvalue option" where
  "lookup_param hp sec key = (case hp sec of Some (PDict d) \<Rightarrow> d key | _ \<Rightarrow> None)"

definition merge_section ::
  "tunables \<Rightarrow> string \<Rightarrow> (string \<Rightarrow> pvalue option) \<Rightarrow> (string \<Rightarrow> pvalue option)" where
  "merge_section tun sec d key =
     (case override_for tun sec key of
        Some v \<Rightarrow> if d key \<noteq> None then Some (PNum v) else None
      | None \<Rightarrow> d key)"

definition merged_parameters :: "tunables \<Rightarrow> hparams \<Rightarrow> hparams" where
  "merged_parameters tun hp sec =
     (case hp sec of
        Some (PDict d) \<Rightarrow> Some (PDict (merge_section tun sec d))
      | other \<Rightarrow> other)"

text \<open>
  A sample environment, state and upload, on which the theorems are instantiated. The
  engine object is represented by its parameter set: loading gives \<open>sample_params\<close> and
  \<^verbatim>\<open>instantiate\<close> installs the dictionary it is given. The temporary file is
  \<^verbatim>\<open>/tmp/tmpq3x\<close> followed by the suffix; the engine's outcome and the outcome of
  \<^verbatim>\<open>os.remove\<close> are arguments.
\<close>

definition sample_params :: hparams where
  "sample_params =
     [''segmentation'' \<mapsto> PDict [''min_duration_off'' \<mapsto> PNum 0.5],
      ''clustering'' \<mapsto> PDict [''threshold'' \<mapsto> PNum 0.7, ''Fa'' \<mapsto> PNum 0.07]]"

definition sample_env :: "exn + raw_turn list \<Rightarrow> exn option \<Rightarrow> hparams env" where
  "sample_env outcome removal =
     \<lparr>getenv_HF_TOKEN = None,
      from_pretrained = (\<lambda>name token. Inr sample_params),
      parameters = (\<lambda>p. p),
      instantiate = (\<lambda>p hp. Inr hp),
      str_float = (\<lambda>x. ''x''),
      named_temporary_file = (\<lambda>suffix. Inr (''/tmp/tmpq3x'' @ suffix)),
      tmp_write = (\<lambda>path content. None),
      diarize = (\<lambda>p path n lo hi. outcome),
      os_remove = (\<lambda>path. removal)\<rparr>"

text \<open>
  The same environment with a loader that returns an engine with the given parameter
  set, and a parameter set in which \<^verbatim>\<open>clustering\<close> is a bare number:
  \<^verbatim>\<open>{"segmentation": {"min_duration_off": 0.5}, "clustering": 0.7}\<close>.
\<close>

definition sample_loader :: "hparams \<Rightarrow> hparams env" where
  "sample_loader hp = (sample_env (Inr []) None)\<lparr>from_pretrained := (\<lambda>name token. Inr hp)\<rparr>"

definition scalar_clustering_params :: hparams where
  "scalar_clustering_params =
     [''segmentation'' \<mapsto> PDict [''min_duration_off'' \<mapsto> PNum 0.5],
      ''clustering'' \<mapsto> PNum 0.7]"

definition scalar_segmentation_params :: hparams where
  "scalar_segmentation_params =
     [''segmentation'' \<mapsto> PNum 0.5,
      ''clustering'' \<mapsto> PDict [''threshold'' \<mapsto> PNum 0.7]]"

definition sample_world :: "hparams option \<Rightarrow> hparams world" where
  "sample_world handle = \<lparr>pipeline = handle, fs = Map.empty, logged = [], trace = []\<rparr>"

definition sample_upload :: "string option \<Rightarrow> string option \<Rightarrow> upload_file" where
  "sample_upload ctype fname = \<lparr>content_type = ctype, filename = fname, read = Inr ''RIFF''\<rparr>"


section \<open>Properties\<close>

subsection \<open>Upload validation\<close>

lemma sorted_audio_extensions:
  "sort audio_extensions =
     [''.aac'', ''.flac'', ''.m4a'', ''.m4v'', ''.mp3'', ''.mp4'', ''.ogg'', ''.opus'',
      ''.wav'', ''.wma'']"
  by code_simp

lemma extension_error_detail_eq:
  "extension_error_detail ctype =
     ''Invalid file type: '' @ or_else ctype ''unknown''
       @ ''. Expected audio file (supported extensions: .aac, .flac, .m4a, .m4v, .mp3, .mp4, .ogg, .opus, .wav, .wma).''"
  by (simp add: extension_error_detail_def sorted_audio_extensions)

lemma generic_type_not_audio:
  "\<not> is_audio_content_type None"
  "\<not> is_audio_content_type (Some ''application/octet-stream'')"
  by (simp_all add: is_audio_content_type_def)

lemma process_audio_rejected:
  "pipeline w = Some p \<Longrightarrow> validate_file_type (content_type audio) (filename audio) = Inl h
     \<Longrightarrow> process_audio ev audio w = (Inl h, w)"
  by (simp add: process_audio_def)

text \<open>
  Claim C3. When the declared media type is absent or is \<^verbatim>\<open>application/octet-stream\<close>,
  validation accepts exactly when the extension of the filename (as \<^verbatim>\<open>os.path.splitext\<close>
  gives it, lower-cased) is one of the ten allowed extensions; otherwise it raises a 400
  whose detail names the declared type (\<^verbatim>\<open>unknown\<close> when absent) and lists the allowed
  extensions in sorted order. An absent or empty filename has the extension \<^verbatim>\<open>""\<close>.
\<close>

theorem validate_extension_fallback:
  assumes "ctype = None \<or> ctype = Some ''application/octet-stream''"
  shows "(validate_file_type ctype fname = Inr ()
            \<longleftrightarrow> lower (snd (splitext (or_else fname []))) \<in>
                  {''.wav'', ''.mp3'', ''.m4a'', ''.flac'', ''.ogg'', ''.aac'', ''.wma'',
                   ''.opus'', ''.mp4'', ''.m4v''})
         \<and> (validate_file_type ctype fname \<noteq> Inr ()
            \<longrightarrow> validate_file_type ctype fname =
                  Inl (HTTPException 400
                    (''Invalid file type: ''
                       @ (case ctype of None \<Rightarrow> ''unknown'' | Some ct \<Rightarrow> ct)
                       @ ''. Expected audio file (supported extensions: .aac, .flac, .m4a, .m4v, .mp3, .mp4, .ogg, .opus, .wav, .wma).'')))"
  using assms
  by (auto simp: validate_file_type_def generic_type_not_audio extension_error_detail_eq
        Let_def audio_extensions_def or_else_def)

theorem validate_extension_fallback_witness:
  "validate_file_type None (Some ''video.MP4'') = Inr ()
   \<and> validate_file_type None (Some ''notes.txt'') =
       Inl (HTTPException 400
         ''Invalid file type: unknown. Expected audio file (supported extensions: .aac, .flac, .m4a, .m4v, .mp3, .mp4, .ogg, .opus, .wav, .wma).'')"
proof -
  have a: "lower (snd (splitext (or_else (Some ''video.MP4'') []))) = ''.mp4''"
    by code_simp
  have b: "lower (snd (splitext (or_else (Some ''notes.txt'') []))) = ''.txt''"
    by code_simp
  show ?thesis
    using validate_extension_fallback [of None "Some ''video.MP4''"]
      validate_extension_fallback [of None "Some ''notes.txt''"]
    by (simp add: a b)
qed

text \<open>
  Claim C4. A declared media type that starts with \<^verbatim>\<open>audio/\<close> is accepted whatever the
  filename; a declared type that neither starts with \<^verbatim>\<open>audio/\<close> nor is
  \<^verbatim>\<open>application/octet-stream\<close> is rejected with a 400 whatever the filename.
\<close>

theorem validate_declared_type:
  "(prefix ''audio/'' ct \<longrightarrow> validate_file_type (Some ct) fname = Inr ())
   \<and> (\<not> prefix ''audio/'' ct \<and> ct \<noteq> ''application/octet-stream''
        \<longrightarrow> validate_file_type (Some ct) fname =
              Inl (HTTPException 400 (''Invalid file type: '' @ ct @ ''. Expected audio file.'')))"
  by (auto simp: validate_file_type_def is_audio_content_type_def fmt_opt_def)

theorem validate_declared_type_witness:
  "validate_file_type (Some ''audio/mpeg'') (Some ''notes.txt'') = Inr ()
   \<and> validate_file_type (Some ''text/plain'') (Some ''speech.wav'') =
       Inl (HTTPException 400 ''Invalid file type: text/plain. Expected audio file.'')"
  using validate_declared_type [of "''audio/mpeg''" "Some ''notes.txt''"]
    validate_declared_type [of "''text/plain''" "Some ''speech.wav''"]
  by simp

text \<open>
  Claim C10. A declared media type that is the empty string is falsy for the
  \<^verbatim>\<open>audio/\<close> test and is not in \<^verbatim>\<open>(None, 'application/octet-stream')\<close>, so the upload
  is rejected with a 400 whatever the filename: the extension fallback does not run, and
  the handler leaves the state as it found it.
\<close>

theorem empty_declared_type_rejected:
  assumes "content_type audio = Some []" and "pipeline w = Some p"
  shows "validate_file_type (content_type audio) (filename audio) =
           Inl (HTTPException 400 ''Invalid file type: . Expected audio file.'')
         \<and> process_audio ev audio w =
           (Inl (HTTPException 400 ''Invalid file type: . Expected audio file.''), w)"
proof -
  have v: "validate_file_type (content_type audio) (filename audio) =
             Inl (HTTPException 400 ''Invalid file type: . Expected audio file.'')"
    using assms(1) by (simp add: validate_file_type_def is_audio_content_type_def fmt_opt_def)
  with assms(2) show ?thesis
    by (simp add: process_audio_rejected)
qed

theorem empty_declared_type_rejected_witness:
  "process_audio (sample_env (Inr []) None) (sample_upload (Some []) (Some ''speech.wav''))
      (sample_world (Some sample_params)) =
     (Inl (HTTPException 400 ''Invalid file type: . Expected audio file.''),
      sample_world (Some sample_params))"
  using empty_declared_type_rejected
    [of "sample_upload (Some []) (Some ''speech.wav'')" "sample_world (Some sample_params)" sample_params
        "sample_env (Inr []) None"]
  by (simp add: sample_upload_def sample_world_def)

subsection \<open>The handle is checked first\<close>

text \<open>
  Claim C5. When the global \<^verbatim>\<open>pipeline\<close> is \<^verbatim>\<open>None\<close>, \<^verbatim>\<open>/process\<close> answers 503 for
  every upload and every environment and returns the state unchanged (no file, no log
  line, no outside call: the check comes before validation and staging), and
  \<^verbatim>\<open>/health\<close> reports \<^verbatim>\<open>pipeline_loaded: false\<close>.
\<close>

theorem not_loaded_unavailable:
  assumes "pipeline w = None"
  shows "process_audio ev audio w =
           (Inl (HTTPException 503 ''Pipeline not loaded. Please check server logs.''), w)
         \<and> pipeline_loaded (health_check w) = False"
  using assms by (simp add: process_audio_def health_check_def)

theorem not_loaded_unavailable_witness:
  "process_audio (sample_env (Inr []) None) (sample_upload (Some ''text/plain'') None)
      (sample_world None) =
     (Inl (HTTPException 503 ''Pipeline not loaded. Please check server logs.''),
      sample_world None)
   \<and> pipeline_loaded (health_check (sample_world None)) = False"
  using not_loaded_unavailable
    [of "sample_world None" "sample_env (Inr []) None" "sample_upload (Some ''text/plain'') None"]
  by (simp add: sample_world_def)

subsection \<open>The handler: staging, invocation, cleanup\<close>

lemma extract_segments_acc:
  "extract_segments turns (segs, speakers, total_dur) =
     (segs @ map segment_of turns,
      speakers \<union> set (map turn_speaker turns),
      Max (insert total_dur (set (map turn_end turns))))"
proof (induction turns arbitrary: segs speakers total_dur)
  case Nil
  then show ?case by simp
next
  case (Cons turn turns)
  obtain s e l where turn: "turn = (s, e, l)" by (cases turn)
  have "Max (insert (max total_dur e) (set (map turn_end turns)))
          = Max (insert total_dur (insert e (set (map turn_end turns))))"
    by (cases "turns = []") (simp_all add: max.assoc)
  then show ?case
    by (simp add: Cons.IH turn segment_of_def turn_end_def turn_speaker_def)
qed

lemma try_block_temp_file:
  "fst (try_block ev p audio w) =
     (case named_temporary_file ev (temp_suffix audio) of Inl e \<Rightarrow> None | Inr t \<Rightarrow> Some t)"
  by (simp add: try_block_def Let_def extract_segments_acc split: sum.splits option.splits)

lemma try_block_fs:
  "named_temporary_file ev (temp_suffix audio) = Inr t
     \<Longrightarrow> fs (snd (snd (try_block ev p audio w))) t \<noteq> None"
  by (simp add: try_block_def Let_def extract_segments_acc record_event_def log_to_def
        split: sum.splits option.splits)

lemma try_block_result:
  "fst (snd (try_block ev p audio w)) =
     (case named_temporary_file ev (temp_suffix audio) of
        Inl e \<Rightarrow> Inl e
      | Inr t \<Rightarrow>
          (case read audio of
             Inl e \<Rightarrow> Inl e
           | Inr content \<Rightarrow>
               (case tmp_write ev t content of
                  Some e \<Rightarrow> Inl e
                | None \<Rightarrow>
                    (case diarize ev p t 2 2 2 of
                       Inl e \<Rightarrow> Inl e
                     | Inr turns \<Rightarrow>
                         Inr \<lparr>success = True, segments = map segment_of turns,
                              total_speakers = int (card (set (map turn_speaker turns))),
                              total_duration = Max (insert 0 (set (map turn_end turns))),
                              message = Some (''Successfully processed ''
                                @ str_nat (length turns) @ '' segments'')\<rparr>))))"
  by (simp add: try_block_def Let_def extract_segments_acc split: sum.splits option.splits)

lemma try_block_engine_calls:
  "filter is_engine_call (trace (snd (snd (try_block ev p audio w)))) =
     filter is_engine_call (trace w) @
       (case named_temporary_file ev (temp_suffix audio) of
          Inl e \<Rightarrow> []
        | Inr t \<Rightarrow>
            (case read audio of
               Inl e \<Rightarrow> []
             | Inr content \<Rightarrow>
                 (case tmp_write ev t content of
                    Some e \<Rightarrow> []
                  | None \<Rightarrow> [EngineCall t 2 2 2])))"
  by (simp add: try_block_def Let_def extract_segments_acc record_event_def log_to_def
        split: sum.splits option.splits)

lemma try_block_removals:
  "count_list (trace (snd (snd (try_block ev p audio w)))) (Remove t) =
     count_list (trace w) (Remove t)"
  by (simp add: try_block_def Let_def extract_segments_acc record_event_def log_to_def
        split: sum.splits option.splits)

lemma try_block_os_remove:
  "try_block (ev\<lparr>os_remove := rm\<rparr>) p audio w = try_block ev p audio w"
  by (simp add: try_block_def Let_def extract_segments_acc split: sum.splits option.splits)

lemma try_block_diarize:
  "named_temporary_file ev (temp_suffix audio) = Inr t
     \<Longrightarrow> d p t 2 2 2 = diarize ev p t 2 2 2
     \<Longrightarrow> try_block (ev\<lparr>diarize := d\<rparr>) p audio w = try_block ev p audio w"
  by (simp add: try_block_def Let_def extract_segments_acc split: sum.splits option.splits)

lemma finally_block_trace:
  "trace (finally_block ev tf w) =
     trace w @ (case tf of
                  None \<Rightarrow> []
                | Some t \<Rightarrow> if t \<noteq> [] \<and> fs w t \<noteq> None then [Remove t] else [])"
  by (simp add: finally_block_def record_event_def log_to_def Let_def split: option.splits)

lemma finally_block_removed:
  "os_remove ev t = None \<Longrightarrow> t \<noteq> [] \<Longrightarrow> fs (finally_block ev (Some t) w) t = None"
  by (simp add: finally_block_def record_event_def Let_def)

lemma finally_block_warned:
  "os_remove ev t = Some e \<Longrightarrow> t \<noteq> [] \<Longrightarrow> fs w t \<noteq> None
     \<Longrightarrow> (WARNING, ''Failed to remove temp file: '' @ str_exn e)
           \<in> set (logged (finally_block ev (Some t) w))"
  by (simp add: finally_block_def record_event_def log_to_def Let_def)

lemma process_audio_staged:
  assumes "pipeline w = Some p"
    and "validate_file_type (content_type audio) (filename audio) = Inr u"
  shows "process_audio ev audio w =
           (case try_block ev p audio w of
              (tf, r, w1) \<Rightarrow>
                (case r of
                   Inr resp \<Rightarrow> (Inr resp, finally_block ev tf w1)
                 | Inl e \<Rightarrow>
                     (Inl (HTTPException 500 (''Error processing audio: '' @ str_exn e)),
                      finally_block ev tf
                        (log_to ERROR (''Error processing audio: '' @ str_exn e) w1))))"
  using assms by (simp add: process_audio_def Let_def split: prod.splits sum.splits)

lemma process_audio_response:
  assumes "pipeline w = Some p"
    and "validate_file_type (content_type audio) (filename audio) = Inr u"
  shows "fst (process_audio ev audio w) =
           (case fst (snd (try_block ev p audio w)) of
              Inr resp \<Rightarrow> Inr resp
            | Inl e \<Rightarrow> Inl (HTTPException 500 (''Error processing audio: '' @ str_exn e)))"
  by (simp add: process_audio_staged[OF assms] split: prod.splits sum.splits)

lemma process_audio_world:
  assumes "pipeline w = Some p"
    and "validate_file_type (content_type audio) (filename audio) = Inr u"
  shows "\<exists>w1. (snd (process_audio ev audio w) = finally_block ev (fst (try_block ev p audio w)) w1)
            \<and> fs w1 = fs (snd (snd (try_block ev p audio w)))
            \<and> trace w1 = trace (snd (snd (try_block ev p audio w)))"
  by (auto simp add: process_audio_staged[OF assms] log_to_def split: prod.splits sum.splits)

text \<open>Facts about the sample environment.\<close>

lemma sample_loaded: "pipeline (sample_world (Some sample_params)) = Some sample_params"
  by (simp add: sample_world_def)

lemma sample_valid:
  "validate_file_type (content_type (sample_upload (Some ''audio/wav'') (Some ''speech.wav'')))
     (filename (sample_upload (Some ''audio/wav'') (Some ''speech.wav''))) = Inr ()"
  by (simp add: sample_upload_def validate_file_type_def is_audio_content_type_def)

lemma sample_suffix: "temp_suffix (sample_upload ctype (Some ''speech.wav'')) = ''.wav''"
proof -
  have "snd (splitext ''speech.wav'') = ''.wav''" by code_simp
  then show ?thesis by (simp add: temp_suffix_def sample_upload_def or_else_def)
qed

lemma sample_created:
  "named_temporary_file (sample_env outcome removal)
     (temp_suffix (sample_upload ctype (Some ''speech.wav''))) = Inr ''/tmp/tmpq3x.wav''"
  by (simp add: sample_suffix sample_env_def)

lemma sample_read: "read (sample_upload ctype fname) = Inr ''RIFF''"
  by (simp add: sample_upload_def)

lemma sample_write: "tmp_write (sample_env outcome removal) path content = None"
  by (simp add: sample_env_def)

lemma sample_diarize: "diarize (sample_env outcome removal) p path n lo hi = outcome"
  by (simp add: sample_env_def)

lemma sample_remove: "os_remove (sample_env outcome removal) path = removal"
  by (simp add: sample_env_def)

lemma sample_trace: "trace (sample_world handle) = []"
  by (simp add: sample_world_def)

lemma process_audio_engine_calls:
  "filter is_engine_call (trace (snd (process_audio ev audio w))) =
     filter is_engine_call (trace w) @
       (case pipeline w of
          None \<Rightarrow> []
        | Some p \<Rightarrow>
            (case validate_file_type (content_type audio) (filename audio) of
               Inl h \<Rightarrow> []
             | Inr u \<Rightarrow>
                 (case named_temporary_file ev (temp_suffix audio) of
                    Inl e \<Rightarrow> []
                  | Inr t \<Rightarrow>
                      (case read audio of
                         Inl e \<Rightarrow> []
                       | Inr content \<Rightarrow>
                           (case tmp_write ev t content of
                              Some e \<Rightarrow> []
                            | None \<Rightarrow> [EngineCall t 2 2 2])))))"
proof (cases "pipeline w")
  case None
  then show ?thesis by (simp add: process_audio_def)
next
  case (Some p)
  show ?thesis
  proof (cases "validate_file_type (content_type audio) (filename audio)")
    case (Inl h)
    with Some show ?thesis by (simp add: process_audio_rejected)
  next
    case (Inr u)
    from process_audio_world[OF Some Inr, of ev] obtain w1 where
      w1: "snd (process_audio ev audio w) = finally_block ev (fst (try_block ev p audio w)) w1"
      and tr: "trace w1 = trace (snd (snd (try_block ev p audio w)))"
      by blast
    have "filter is_engine_call (trace (snd (process_audio ev audio w))) =
            filter is_engine_call (trace (snd (snd (try_block ev p audio w))))"
      by (simp add: w1 finally_block_trace tr split: option.splits)
    then show ?thesis
      by (simp add: try_block_engine_calls Some Inr)
  qed
qed

lemma str_nat_0: "str_nat 0 = ''0''"
  by code_simp

lemma str_nat_1: "str_nat (Suc 0) = ''1''"
  by code_simp


text \<open>
  Claim C1. Whenever the handler has created a staged file \<open>t\<close> (the handle is loaded, the
  upload passed validation, \<^verbatim>\<open>NamedTemporaryFile\<close> returned the name \<open>t\<close>), then on every
  path through the \<^verbatim>\<open>try\<close> block (whatever reading, writing and the engine do)
  \<^verbatim>\<open>os.remove(t)\<close> is called exactly once before the handler ends; when that call
  succeeds the file no longer exists; when it raises, the warning is logged; and the
  response does not depend on what \<^verbatim>\<open>os.remove\<close> does. The name is assumed non-empty,
  as every path of the temporary-file facility is (the code tests \<^verbatim>\<open>if temp_file and ...\<close>).
\<close>

theorem staged_file_released:
  assumes "pipeline w = Some p"
    and "validate_file_type (content_type audio) (filename audio) = Inr u"
    and "named_temporary_file ev (temp_suffix audio) = Inr t"
    and "t \<noteq> []"
  shows "count_list (trace (snd (process_audio ev audio w))) (Remove t)
           = count_list (trace w) (Remove t) + 1
         \<and> (os_remove ev t = None \<longrightarrow> fs (snd (process_audio ev audio w)) t = None)
         \<and> (\<forall>e. os_remove ev t = Some e \<longrightarrow>
               (WARNING, ''Failed to remove temp file: '' @ str_exn e)
                 \<in> set (logged (snd (process_audio ev audio w))))
         \<and> fst (process_audio (ev\<lparr>os_remove := rm\<rparr>) audio w) = fst (process_audio ev audio w)"
proof -
  from process_audio_world[OF assms(1,2), of ev] obtain w1 where
    w1: "snd (process_audio ev audio w) = finally_block ev (fst (try_block ev p audio w)) w1"
    and f: "fs w1 = fs (snd (snd (try_block ev p audio w)))"
    and tr: "trace w1 = trace (snd (snd (try_block ev p audio w)))"
    by blast
  have tf: "fst (try_block ev p audio w) = Some t"
    by (simp add: try_block_temp_file assms(3))
  have ex: "fs w1 t \<noteq> None"
    using try_block_fs[OF assms(3), of p w] by (simp add: f)
  have "count_list (trace (snd (process_audio ev audio w))) (Remove t)
          = count_list (trace w) (Remove t) + 1"
    using ex assms(4) by (simp add: w1 tf finally_block_trace tr try_block_removals)
  moreover have "os_remove ev t = None \<longrightarrow> fs (snd (process_audio ev audio w)) t = None"
    using assms(4) by (simp add: w1 tf finally_block_removed)
  moreover have "\<forall>e. os_remove ev t = Some e \<longrightarrow>
      (WARNING, ''Failed to remove temp file: '' @ str_exn e)
        \<in> set (logged (snd (process_audio ev audio w)))"
    unfolding w1 tf using finally_block_warned[OF _ assms(4) ex] by blast
  moreover have "fst (process_audio (ev\<lparr>os_remove := rm\<rparr>) audio w) = fst (process_audio ev audio w)"
    by (simp add: process_audio_response[OF assms(1,2)] try_block_os_remove)
  ultimately show ?thesis by blast
qed

theorem staged_file_released_witness:
  "fs (snd (process_audio (sample_env (Inr []) None)
         (sample_upload (Some ''audio/wav'') (Some ''speech.wav'')) (sample_world (Some sample_params))))
      ''/tmp/tmpq3x.wav'' = None
   \<and> (WARNING, ''Failed to remove temp file: EPERM'')
       \<in> set (logged (snd (process_audio
             (sample_env (Inl (Exception ''bad audio'')) (Some (Exception ''EPERM'')))
             (sample_upload (Some ''audio/wav'') (Some ''speech.wav''))
             (sample_world (Some sample_params)))))
   \<and> count_list (trace (snd (process_audio
             (sample_env (Inl (Exception ''bad audio'')) (Some (Exception ''EPERM'')))
             (sample_upload (Some ''audio/wav'') (Some ''speech.wav''))
             (sample_world (Some sample_params))))) (Remove ''/tmp/tmpq3x.wav'') = 1"
  using staged_file_released [OF sample_loaded sample_valid sample_created, of "Inr []" None]
    staged_file_released [OF sample_loaded sample_valid sample_created,
      of "Inl (Exception ''bad audio'')" "Some (Exception ''EPERM'')"]
  by (simp add: sample_remove sample_trace)

text \<open>
  Claim C7. When the handle is loaded and the upload is valid, an exception \<open>e\<close> raised
  by staging (creating the temporary file, reading the upload, writing it) or by the
  engine gives the response 500 with detail \<^verbatim>\<open>Error processing audio: \<close> followed by
  \<^verbatim>\<open>str(e)\<close>; and one request adds at most one engine invocation to the record of calls.
\<close>

theorem failure_is_uniform_500:
  assumes "pipeline w = Some p"
    and "validate_file_type (content_type audio) (filename audio) = Inr u"
  shows "(named_temporary_file ev (temp_suffix audio) = Inl e
            \<or> named_temporary_file ev (temp_suffix audio) = Inr t \<and> read audio = Inl e
            \<or> named_temporary_file ev (temp_suffix audio) = Inr t \<and> read audio = Inr content
                \<and> tmp_write ev t content = Some e
            \<or> named_temporary_file ev (temp_suffix audio) = Inr t \<and> read audio = Inr content
                \<and> tmp_write ev t content = None \<and> diarize ev p t 2 2 2 = Inl e
          \<longrightarrow> fst (process_audio ev audio w) =
                Inl (HTTPException 500 (''Error processing audio: '' @ str_exn e)))
         \<and> length (filter is_engine_call (trace (snd (process_audio ev audio w))))
             \<le> length (filter is_engine_call (trace w)) + 1"
proof -
  have "length (filter is_engine_call (trace (snd (process_audio ev audio w))))
          \<le> length (filter is_engine_call (trace w)) + 1"
    by (simp add: process_audio_engine_calls split: option.splits sum.splits)
  moreover have "named_temporary_file ev (temp_suffix audio) = Inl e
            \<or> named_temporary_file ev (temp_suffix audio) = Inr t \<and> read audio = Inl e
            \<or> named_temporary_file ev (temp_suffix audio) = Inr t \<and> read audio = Inr content
                \<and> tmp_write ev t content = Some e
            \<or> named_temporary_file ev (temp_suffix audio) = Inr t \<and> read audio = Inr content
                \<and> tmp_write ev t content = None \<and> diarize ev p t 2 2 2 = Inl e
          \<longrightarrow> fst (process_audio ev audio w) =
                Inl (HTTPException 500 (''Error processing audio: '' @ str_exn e))"
    by (auto simp add: process_audio_response[OF assms] try_block_result)
  ultimately show ?thesis by blast
qed

theorem failure_is_uniform_500_witness:
  "fst (process_audio (sample_env (Inl (Exception ''bad audio'')) None)
         (sample_upload (Some ''audio/wav'') (Some ''speech.wav'')) (sample_world (Some sample_params)))
     = Inl (HTTPException 500 ''Error processing audio: bad audio'')
   \<and> length (filter is_engine_call (trace (snd (process_audio
         (sample_env (Inl (Exception ''bad audio'')) None)
         (sample_upload (Some ''audio/wav'') (Some ''speech.wav'')) (sample_world (Some sample_params))))))
       \<le> 1"
  using failure_is_uniform_500 [OF sample_loaded sample_valid,
      of "sample_env (Inl (Exception ''bad audio'')) None" "Exception ''bad audio''"
         "''/tmp/tmpq3x.wav''" "''RIFF''"]
  by (simp add: sample_created sample_read sample_write sample_diarize sample_trace)

text \<open>
  Claim C9. A request adds either no engine invocation or exactly one, and that one has
  \<^verbatim>\<open>num_speakers = 2, min_speakers = 2, max_speakers = 2\<close>, whatever the upload. When
  staging succeeds the invocation is made on the staged path, and the response depends
  on the engine only through its outcome at that path with the constraint \<open>2, 2, 2\<close>.
\<close>

theorem fixed_speaker_constraint:
  "(filter is_engine_call (trace (snd (process_audio ev audio w))) = filter is_engine_call (trace w)
      \<or> (\<exists>path. filter is_engine_call (trace (snd (process_audio ev audio w)))
                   = filter is_engine_call (trace w) @ [EngineCall path 2 2 2]))
   \<and> (pipeline w = Some p \<and> validate_file_type (content_type audio) (filename audio) = Inr u
        \<and> named_temporary_file ev (temp_suffix audio) = Inr t \<and> read audio = Inr content
        \<and> tmp_write ev t content = None
      \<longrightarrow> filter is_engine_call (trace (snd (process_audio ev audio w)))
            = filter is_engine_call (trace w) @ [EngineCall t 2 2 2]
          \<and> (d p t 2 2 2 = diarize ev p t 2 2 2
               \<longrightarrow> fst (process_audio (ev\<lparr>diarize := d\<rparr>) audio w) = fst (process_audio ev audio w)))"
proof -
  have a: "filter is_engine_call (trace (snd (process_audio ev audio w))) = filter is_engine_call (trace w)
      \<or> (\<exists>path. filter is_engine_call (trace (snd (process_audio ev audio w)))
                   = filter is_engine_call (trace w) @ [EngineCall path 2 2 2])"
    by (simp add: process_audio_engine_calls split: option.splits sum.splits)
  have b: "fst (process_audio (ev\<lparr>diarize := d\<rparr>) audio w) = fst (process_audio ev audio w)"
    if "pipeline w = Some p" "validate_file_type (content_type audio) (filename audio) = Inr u"
      "named_temporary_file ev (temp_suffix audio) = Inr t" "d p t 2 2 2 = diarize ev p t 2 2 2"
    using that by (simp add: process_audio_response[OF that(1,2)] try_block_diarize)
  have c: "filter is_engine_call (trace (snd (process_audio ev audio w)))
            = filter is_engine_call (trace w) @ [EngineCall t 2 2 2]"
    if "pipeline w = Some p" "validate_file_type (content_type audio) (filename audio) = Inr u"
      "named_temporary_file ev (temp_suffix audio) = Inr t" "read audio = Inr content"
      "tmp_write ev t content = None"
    using that by (simp add: process_audio_engine_calls)
  from a b c show ?thesis by blast
qed

theorem fixed_speaker_constraint_witness:
  "filter is_engine_call (trace (snd (process_audio (sample_env (Inr []) None)
         (sample_upload (Some ''audio/wav'') (Some ''speech.wav'')) (sample_world (Some sample_params)))))
     = [EngineCall ''/tmp/tmpq3x.wav'' 2 2 2]"
  using fixed_speaker_constraint [of "sample_env (Inr []) None"
      "sample_upload (Some ''audio/wav'') (Some ''speech.wav'')" "sample_world (Some sample_params)"
      sample_params "()" "''/tmp/tmpq3x.wav''" "''RIFF''"]
  by (simp add: sample_loaded sample_valid sample_created sample_read sample_write sample_trace)

text \<open>
  Claim C8. When the engine returns no turn, the request succeeds with
  \<^verbatim>\<open>success = true\<close>, no segment, \<^verbatim>\<open>total_speakers = 0\<close> and \<^verbatim>\<open>total_duration = 0.0\<close>.
\<close>

theorem zero_turns_succeed:
  assumes "pipeline w = Some p"
    and "validate_file_type (content_type audio) (filename audio) = Inr u"
    and "named_temporary_file ev (temp_suffix audio) = Inr t"
    and "read audio = Inr content"
    and "tmp_write ev t content = None"
    and "diarize ev p t 2 2 2 = Inr []"
  shows "fst (process_audio ev audio w) =
           Inr \<lparr>success = True, segments = [], total_speakers = 0, total_duration = 0,
                message = Some ''Successfully processed 0 segments''\<rparr>"
  using assms(3-6)
  by (simp add: process_audio_response[OF assms(1,2)] try_block_result str_nat_0)

theorem zero_turns_succeed_witness:
  "fst (process_audio (sample_env (Inr []) None)
         (sample_upload (Some ''audio/wav'') (Some ''speech.wav'')) (sample_world (Some sample_params)))
     = Inr \<lparr>success = True, segments = [], total_speakers = 0, total_duration = 0,
            message = Some ''Successfully processed 0 segments''\<rparr>"
  using zero_turns_succeed [OF sample_loaded sample_valid sample_created sample_read
      sample_write sample_diarize]
  by simp

text \<open>
  Claim C2, as amended. When the engine returns the turns \<open>turns\<close>, the response has one
  segment per turn, in the engine's order, each with the turn's speaker and the duration
  \<open>end - start\<close>; \<^verbatim>\<open>total_speakers\<close> is the number of distinct speaker labels; and
  \<^verbatim>\<open>total_duration\<close> is the largest of \<open>0.0\<close> (where the accumulator starts) and the end
  times. That is the maximum end time as soon as one turn ends at or after time \<open>0\<close>; it
  is never the sum of the durations.
\<close>

theorem normalized_response:
  assumes "pipeline w = Some p"
    and "validate_file_type (content_type audio) (filename audio) = Inr u"
    and "named_temporary_file ev (temp_suffix audio) = Inr t"
    and "read audio = Inr content"
    and "tmp_write ev t content = None"
    and "diarize ev p t 2 2 2 = Inr turns"
  shows "\<exists>r. fst (process_audio ev audio w) = Inr r
           \<and> success r
           \<and> segments r = map segment_of turns
           \<and> map speaker (segments r) = map turn_speaker turns
           \<and> map duration (segments r) = map (\<lambda>turn. turn_end turn - fst turn) turns
           \<and> total_speakers r = int (card (set (map turn_speaker turns)))
           \<and> total_duration r = Max (insert 0 (set (map turn_end turns)))
           \<and> message r = Some (''Successfully processed '' @ str_nat (length turns) @ '' segments'')
           \<and> ((\<exists>turn \<in> set turns. 0 \<le> turn_end turn)
                \<longrightarrow> total_duration r = Max (set (map turn_end turns)))"
proof -
  let ?r = "\<lparr>success = True, segments = map segment_of turns,
             total_speakers = int (card (set (map turn_speaker turns))),
             total_duration = Max (insert 0 (set (map turn_end turns))),
             message = Some (''Successfully processed '' @ str_nat (length turns) @ '' segments'')\<rparr>"
  have r: "fst (process_audio ev audio w) = Inr ?r"
    using assms(3-6) by (simp add: process_audio_response[OF assms(1,2)] try_block_result)
  have d: "map duration (map segment_of turns) = map (\<lambda>turn. turn_end turn - fst turn) turns"
    by (simp add: segment_of_def turn_end_def split: prod.splits)
  have s: "map speaker (map segment_of turns) = map turn_speaker turns"
    by (simp add: segment_of_def turn_speaker_def split: prod.splits)
  have m: "Max (insert 0 (set (map turn_end turns))) = Max (set (map turn_end turns))"
    if "\<exists>turn \<in> set turns. 0 \<le> turn_end turn"
  proof -
    from that obtain turn where turn: "turn \<in> set turns" "0 \<le> turn_end turn" by blast
    then have ne: "set (map turn_end turns) \<noteq> {}" by auto
    have "turn_end turn \<le> Max (set (map turn_end turns))"
      using turn(1) by (intro Max_ge) auto
    with turn(2) have "0 \<le> Max (set (map turn_end turns))" by linarith
    then show ?thesis using ne by (simp add: max_def)
  qed
  show ?thesis
    using r d s m by (intro exI[of _ ?r]) simp
qed

theorem normalized_response_witness:
  "\<exists>r. fst (process_audio (sample_env (Inr [(0, 2, ''A''), (1.5, 3, ''B''), (3, 5, ''A'')]) None)
         (sample_upload (Some ''audio/wav'') (Some ''speech.wav'')) (sample_world (Some sample_params)))
        = Inr r
      \<and> map speaker (segments r) = [''A'', ''B'', ''A'']
      \<and> map duration (segments r) = [2, 1.5, 2]
      \<and> total_speakers r = 2
      \<and> total_duration r = 5"
proof -
  have c: "card {''A'', ''B''} = 2" by simp
  show ?thesis
    using normalized_response [OF sample_loaded sample_valid sample_created sample_read
        sample_write sample_diarize, of "[(0, 2, ''A''), (1.5, 3, ''B''), (3, 5, ''A'')]" None]
    by (auto simp: turn_end_def turn_speaker_def insert_commute c)
qed

text \<open>
  As the claim is worded (\<^verbatim>\<open>total_duration\<close> is the maximum end time of every non-empty
  sequence of turns) it fails when every turn ends before time \<open>0\<close>: the accumulator
  starts at \<open>0.0\<close> and \<^verbatim>\<open>max(total_duration, end)\<close> never goes below it. For the single
  turn \<open>(-2.0, -1.0, "A")\<close> the response has \<^verbatim>\<open>total_duration = 0.0\<close> while the maximum
  end time is \<open>-1.0\<close>.
\<close>

theorem total_duration_counterexample:
  "fst (process_audio (sample_env (Inr [(- 2, - 1, ''A'')]) None)
         (sample_upload (Some ''audio/wav'') (Some ''speech.wav''))
         (sample_world (Some sample_params)))
     = Inr \<lparr>success = True,
            segments = [\<lparr>speaker = ''A'', start = - 2, end_time = - 1, duration = 1\<rparr>],
            total_speakers = 1, total_duration = 0,
            message = Some ''Successfully processed 1 segments''\<rparr>
   \<and> Max (set (map turn_end [(- 2, - 1, ''A'')])) = - 1
   \<and> (0 :: real) \<noteq> - 1"
  by (simp add: process_audio_response[OF sample_loaded sample_valid] try_block_result
        sample_created sample_read sample_write sample_diarize str_nat_1
        segment_of_def turn_end_def turn_speaker_def)

subsection \<open>Startup: the overrides\<close>

lemma set_segmentation_lookup:
  "distinct (map snd ovs) \<Longrightarrow>
   fst (set_segmentation ev ovs seg lg) key =
     (case map_of (map (\<lambda>(c, k). (k, c)) ovs) key of
        Some (Some v) \<Rightarrow> if seg key \<noteq> None then Some (PNum v) else None
      | _ \<Rightarrow> seg key)"
proof (induction ovs arbitrary: seg lg)
  case Nil
  then show ?case by simp
next
  case (Cons a ovs)
  obtain c k where a: "a = (c, k)" by (cases a)
  from Cons.prems a have k: "k \<notin> snd ` set ovs" and d: "distinct (map snd ovs)" by auto
  have nk: "map_of (map (\<lambda>(c, k). (k, c)) ovs) k = None"
    using k by (force simp: map_of_eq_None_iff)
  show ?case
    using Cons.IH[OF d] nk
    by (cases c) (auto simp: a split: option.splits)
qed

lemma set_segmentation_merge:
  "fst (set_segmentation ev (seg_overrides tun) seg lg) = merge_section tun ''segmentation'' seg"
proof
  fix key
  have d: "distinct (map snd (seg_overrides tun))"
    by (simp add: seg_overrides_def)
  show "fst (set_segmentation ev (seg_overrides tun) seg lg) key
          = merge_section tun ''segmentation'' seg key"
    unfolding set_segmentation_lookup[OF d]
    by (simp add: seg_overrides_def merge_section_def override_for_def split: option.splits)
qed

lemma merge_section_clustering:
  "merge_section tun ''clustering'' d =
     (case CLUSTERING_THRESHOLD tun of
        None \<Rightarrow> d
      | Some v \<Rightarrow> if d ''threshold'' \<noteq> None then d(''threshold'' \<mapsto> PNum v) else d)"
  by (rule ext) (auto simp: merge_section_def override_for_def split: option.splits)

lemma merge_section_other:
  "sec \<noteq> ''clustering'' \<Longrightarrow> sec \<noteq> ''segmentation'' \<Longrightarrow> merge_section tun sec d = d"
  by (rule ext) (simp add: merge_section_def override_for_def)

lemma set_clustering_dict:
  assumes "hp ''clustering'' = None \<or> (\<exists>d. hp ''clustering'' = Some (PDict d))"
  shows "\<exists>lg. set_clustering ev tun hp =
           Inr (case hp ''clustering'' of
                  Some (PDict d) \<Rightarrow> hp(''clustering'' \<mapsto> PDict (merge_section tun ''clustering'' d))
                | _ \<Rightarrow> hp, lg)"
  using assms
  by (auto simp: set_clustering_def merge_section_clustering map_upd_triv split: option.splits)

lemma apply_segmentation_merge:
  "fst (apply_segmentation ev tun hp) =
     (case hp ''segmentation'' of
        Some (PDict seg) \<Rightarrow> hp(''segmentation'' \<mapsto> PDict (merge_section tun ''segmentation'' seg))
      | _ \<Rightarrow> hp)"
proof (cases "\<exists>seg. hp ''segmentation'' = Some (PDict seg)")
  case True
  then obtain seg where seg: "hp ''segmentation'' = Some (PDict seg)" by blast
  obtain seg' lg where r: "set_segmentation ev (seg_overrides tun) seg [] = (seg', lg)"
    by (cases "set_segmentation ev (seg_overrides tun) seg []")
  from set_segmentation_merge[of ev tun seg "[]"] r
  have "seg' = merge_section tun ''segmentation'' seg" by simp
  with seg r show ?thesis by (simp add: apply_segmentation_def)
next
  case False
  then show ?thesis
    by (simp add: apply_segmentation_def split: option.splits pvalue.splits)
qed

lemma overrides_refine:
  assumes "hp ''clustering'' = None \<or> (\<exists>d. hp ''clustering'' = Some (PDict d))"
  shows "\<exists>hp1 lg1. set_clustering ev tun hp = Inr (hp1, lg1)
           \<and> fst (apply_segmentation ev tun hp1) = merged_parameters tun hp"
proof -
  from set_clustering_dict[where hp = hp and ev = ev and tun = tun, OF assms] obtain lg where
    sc: "set_clustering ev tun hp =
           Inr (case hp ''clustering'' of
                  Some (PDict d) \<Rightarrow> hp(''clustering'' \<mapsto> PDict (merge_section tun ''clustering'' d))
                | _ \<Rightarrow> hp, lg)" by blast
  let ?hp1 = "case hp ''clustering'' of
                  Some (PDict d) \<Rightarrow> hp(''clustering'' \<mapsto> PDict (merge_section tun ''clustering'' d))
                | _ \<Rightarrow> hp"
  have seg1: "?hp1 ''segmentation'' = hp ''segmentation''"
    by (simp split: option.splits pvalue.splits)
  have "fst (apply_segmentation ev tun ?hp1) sec = merged_parameters tun hp sec" for sec
  proof -
    consider (c) "sec = ''clustering''" | (s) "sec = ''segmentation''"
      | (o) "sec \<noteq> ''clustering''" "sec \<noteq> ''segmentation''" by blast
    then show ?thesis
    proof cases
      case c
      then show ?thesis
        by (simp add: apply_segmentation_merge seg1 merged_parameters_def
              split: option.splits pvalue.splits)
    next
      case s
      then show ?thesis
        by (simp add: apply_segmentation_merge seg1 merged_parameters_def
              split: option.splits pvalue.splits)
    next
      case o
      then show ?thesis
        by (simp add: apply_segmentation_merge seg1 merged_parameters_def merge_section_other
              split: option.splits pvalue.splits)
    qed
  qed
  then have "fst (apply_segmentation ev tun ?hp1) = merged_parameters tun hp" by (rule ext)
  with sc show ?thesis by blast
qed

lemma apply_tunables_result:
  assumes "parameters ev p ''clustering'' = None
             \<or> (\<exists>d. parameters ev p ''clustering'' = Some (PDict d))"
  shows "fst (apply_tunables ev tun p w) =
           (case instantiate ev p (merged_parameters tun (parameters ev p)) of
              Inl e \<Rightarrow> Inl e | Inr p' \<Rightarrow> Inr ())"
    and "pipeline (snd (apply_tunables ev tun p w)) =
           (case instantiate ev p (merged_parameters tun (parameters ev p)) of
              Inl e \<Rightarrow> pipeline w | Inr p' \<Rightarrow> Some p')"
proof -
  from overrides_refine[where hp = "parameters ev p" and ev = ev and tun = tun, OF assms]
  obtain hp1 lg1 where
    sc: "set_clustering ev tun (parameters ev p) = Inr (hp1, lg1)"
    and ap: "fst (apply_segmentation ev tun hp1) = merged_parameters tun (parameters ev p)"
    by blast
  obtain hp2 lg2 where a2: "apply_segmentation ev tun hp1 = (hp2, lg2)"
    by (cases "apply_segmentation ev tun hp1")
  with ap have hp2: "hp2 = merged_parameters tun (parameters ev p)" by simp
  show "fst (apply_tunables ev tun p w) =
           (case instantiate ev p (merged_parameters tun (parameters ev p)) of
              Inl e \<Rightarrow> Inl e | Inr p' \<Rightarrow> Inr ())"
    by (simp add: apply_tunables_def sc a2 hp2 load_failed_def split: sum.splits)
  show "pipeline (snd (apply_tunables ev tun p w)) =
           (case instantiate ev p (merged_parameters tun (parameters ev p)) of
              Inl e \<Rightarrow> pipeline w | Inr p' \<Rightarrow> Some p')"
    by (simp add: apply_tunables_def sc a2 hp2 load_failed_def log_to_def logs_def
          split: sum.splits)
qed

lemma merged_lookup:
  "lookup_param (merged_parameters tun hp) sec key =
     (if key_exists hp sec key
      then (case override_for tun sec key of
              Some v \<Rightarrow> Some (PNum v)
            | None \<Rightarrow> lookup_param hp sec key)
      else None)"
  by (auto simp: lookup_param_def merged_parameters_def key_exists_def merge_section_def
        split: option.splits pvalue.splits)

lemma merged_not_dict:
  "(\<forall>d. hp sec \<noteq> Some (PDict d)) \<Longrightarrow> merged_parameters tun hp sec = hp sec"
  by (auto simp: merged_parameters_def split: option.splits pvalue.splits)

text \<open>
  The hypothesis on the clustering entry used below is needed: the clustering test has no
  \<^verbatim>\<open>isinstance\<close> guard, so a clustering entry that is a bare number makes
  \<^verbatim>\<open>"threshold" in hparams["clustering"]\<close> raise.
\<close>

lemma scalar_clustering_raises:
  assumes "CLUSTERING_THRESHOLD tun = Some v" and "hp ''clustering'' = Some (PNum x)"
  shows "set_clustering ev tun hp = Inl type_error_not_iterable"
  using assms by (simp add: set_clustering_def)

lemma load_pipeline_result:
  assumes "any_tunable tun"
    and "from_pretrained ev model_name (token_argument ev) = Inr p"
    and "parameters ev p ''clustering'' = None
           \<or> (\<exists>d. parameters ev p ''clustering'' = Some (PDict d))"
  shows "fst (load_pipeline ev tun w) =
           (case instantiate ev p (merged_parameters tun (parameters ev p)) of
              Inl e \<Rightarrow> Inl e | Inr p' \<Rightarrow> Inr ())"
    and "pipeline (snd (load_pipeline ev tun w)) =
           (case instantiate ev p (merged_parameters tun (parameters ev p)) of
              Inl e \<Rightarrow> Some p | Inr p' \<Rightarrow> Some p')"
  using assms(1,2)
  by (simp_all add: load_pipeline_def Let_def apply_tunables_result[OF assms(3)] log_to_def
        split: sum.splits)

text \<open>
  The overrides on a parameter set whose \<^verbatim>\<open>clustering\<close> entry is absent or a
  dictionary. Let some override be specified and let loading succeed. Then
  \<^verbatim>\<open>load_pipeline\<close> re-instantiates the engine with the merged parameter set:
  initialization succeeds exactly when that \<^verbatim>\<open>instantiate\<close> call does. In the merged set
  a parameter has the override's value when its key exists in the current set and an
  override is specified for it, and its old value otherwise; a key that does not exist
  is not created, and an entry that is not a dictionary is left as it is.
\<close>

lemma overrides_applied_on_dictionaries:
  assumes "any_tunable tun"
    and "from_pretrained ev model_name (token_argument ev) = Inr p"
    and "parameters ev p ''clustering'' = None
           \<or> (\<exists>d. parameters ev p ''clustering'' = Some (PDict d))"
  shows "(instantiate ev p (merged_parameters tun (parameters ev p)) = Inr p'
            \<longrightarrow> fst (load_pipeline ev tun w) = Inr ()
                \<and> pipeline (snd (load_pipeline ev tun w)) = Some p')
         \<and> (instantiate ev p (merged_parameters tun (parameters ev p)) = Inl e
            \<longrightarrow> fst (load_pipeline ev tun w) = Inl e)
         \<and> lookup_param (merged_parameters tun (parameters ev p)) sec key =
             (if key_exists (parameters ev p) sec key
              then (case override_for tun sec key of
                      Some v \<Rightarrow> Some (PNum v)
                    | None \<Rightarrow> lookup_param (parameters ev p) sec key)
              else None)
         \<and> ((\<forall>d. parameters ev p sec \<noteq> Some (PDict d))
            \<longrightarrow> merged_parameters tun (parameters ev p) sec = parameters ev p sec)"
proof -
  have "instantiate ev p (merged_parameters tun (parameters ev p)) = Inr p'
          \<longrightarrow> fst (load_pipeline ev tun w) = Inr ()
              \<and> pipeline (snd (load_pipeline ev tun w)) = Some p'"
    by (simp add: load_pipeline_result[OF assms])
  moreover have "instantiate ev p (merged_parameters tun (parameters ev p)) = Inl e
          \<longrightarrow> fst (load_pipeline ev tun w) = Inl e"
    by (simp add: load_pipeline_result[OF assms])
  ultimately show ?thesis
    using merged_lookup[of tun "parameters ev p" sec key]
      merged_not_dict[of "parameters ev p" sec tun]
    by blast
qed

lemma overrides_applied_on_dictionaries_sample:
  "fst (load_pipeline (sample_env (Inr []) None) source_tunables (sample_world None)) = Inr ()
   \<and> pipeline (snd (load_pipeline (sample_env (Inr []) None) source_tunables (sample_world None)))
       = Some (merged_parameters source_tunables sample_params)
   \<and> lookup_param (merged_parameters source_tunables sample_params) ''clustering'' ''threshold''
       = Some (PNum 0.8)
   \<and> lookup_param (merged_parameters source_tunables sample_params) ''clustering'' ''Fa''
       = Some (PNum 0.07)
   \<and> lookup_param (merged_parameters source_tunables sample_params) ''segmentation''
         ''min_duration_off'' = Some (PNum 0)
   \<and> lookup_param (merged_parameters source_tunables sample_params) ''segmentation'' ''onset''
       = None"
proof -
  let ?E = "sample_env (Inr []) None"
  have a: "any_tunable source_tunables"
    by (simp add: any_tunable_def source_tunables_def)
  have b: "from_pretrained ?E model_name (token_argument ?E) = Inr sample_params"
    by (simp add: sample_env_def)
  have p: "parameters ?E sample_params = sample_params"
    by (simp add: sample_env_def)
  have c: "parameters ?E sample_params ''clustering'' = None
             \<or> (\<exists>d. parameters ?E sample_params ''clustering'' = Some (PDict d))"
    unfolding p by (simp add: sample_params_def)
  have i: "instantiate ?E sample_params (merged_parameters source_tunables sample_params)
             = Inr (merged_parameters source_tunables sample_params)"
    by (simp add: sample_env_def)
  note t = overrides_applied_on_dictionaries [OF a b c,
      where p' = "merged_parameters source_tunables sample_params" and w = "sample_world None",
      unfolded p]
  have k: "key_exists sample_params ''clustering'' ''threshold''"
    "key_exists sample_params ''clustering'' ''Fa''"
    "key_exists sample_params ''segmentation'' ''min_duration_off''"
    "\<not> key_exists sample_params ''segmentation'' ''onset''"
    by (simp_all add: key_exists_def sample_params_def)
  have o: "override_for source_tunables ''clustering'' ''threshold'' = Some 0.8"
    "override_for source_tunables ''clustering'' ''Fa'' = None"
    "override_for source_tunables ''segmentation'' ''min_duration_off'' = Some 0"
    by (simp_all add: override_for_def source_tunables_def)
  have l: "lookup_param sample_params ''clustering'' ''Fa'' = Some (PNum 0.07)"
    by (simp add: lookup_param_def sample_params_def)
  show ?thesis
    using t [where sec = "''clustering''" and key = "''threshold''"]
      t [where sec = "''clustering''" and key = "''Fa''"]
      t [where sec = "''segmentation''" and key = "''min_duration_off''"]
      t [where sec = "''segmentation''" and key = "''onset''"]
    by (simp add: i k o l)
qed

text \<open>
  Claim C6. The claim: during initialization, an override whose target key is absent
  from the current parameter set is skipped without error and initialization succeeds.
  The code does not meet it when the \<^verbatim>\<open>clustering\<close> entry is not a container: with the
  source's tunables (\<^verbatim>\<open>CLUSTERING_THRESHOLD = 0.80\<close>) and the parameter set
  \<^verbatim>\<open>{"segmentation": {"min_duration_off": 0.5}, "clustering": 0.7}\<close> the target key
  \<^verbatim>\<open>clustering.threshold\<close> is absent, and \<^verbatim>\<open>"threshold" in hparams["clustering"]\<close>
  raises \<^verbatim>\<open>TypeError\<close>; the \<^verbatim>\<open>except\<close> clause logs the failure and re-raises, so
  startup fails. The segmentation path, which tests \<^verbatim>\<open>isinstance(seg, dict)\<close> first,
  skips its overrides in the same situation and startup succeeds.
\<close>

theorem scalar_clustering_fails_startup:
  "override_for source_tunables ''clustering'' ''threshold'' = Some 0.8
   \<and> key_exists scalar_clustering_params ''clustering'' ''threshold'' = False
   \<and> fst (load_pipeline (sample_loader scalar_clustering_params) source_tunables
           (sample_world None)) = Inl type_error_not_iterable
   \<and> logged (snd (load_pipeline (sample_loader scalar_clustering_params) source_tunables
           (sample_world None))) =
       [(INFO, ''Loading pyannote-audio pipeline...''),
        (WARNING,
         ''HF_TOKEN not set, attempting to load without token (may fail if model requires authentication)''),
        (INFO, ''Pipeline loaded successfully!''),
        (ERROR, ''Failed to load pipeline: '' @ str_exn type_error_not_iterable)]
   \<and> key_exists scalar_segmentation_params ''segmentation'' ''min_duration_off'' = False
   \<and> fst (load_pipeline (sample_loader scalar_segmentation_params) source_tunables
           (sample_world None)) = Inr ()"
proof -
  have a: "override_for source_tunables ''clustering'' ''threshold'' = Some 0.8"
    by (simp add: override_for_def source_tunables_def)
  have b: "key_exists scalar_clustering_params ''clustering'' ''threshold'' = False"
    by (simp add: key_exists_def scalar_clustering_params_def)
  have sc: "set_clustering (sample_loader scalar_clustering_params) source_tunables
              scalar_clustering_params = Inl type_error_not_iterable"
    by (rule scalar_clustering_raises [where v = "0.8" and x = "0.7"])
       (simp_all add: source_tunables_def scalar_clustering_params_def)
  have t: "any_tunable source_tunables"
    by (simp add: any_tunable_def source_tunables_def)
  have r: "load_pipeline (sample_loader scalar_clustering_params) source_tunables
             (sample_world None) =
           load_failed type_error_not_iterable
             (log_to INFO ''Pipeline loaded successfully!''
               ((log_to WARNING
                   ''HF_TOKEN not set, attempting to load without token (may fail if model requires authentication)''
                   (log_to INFO ''Loading pyannote-audio pipeline...'' (sample_world None)))
                \<lparr>pipeline := Some scalar_clustering_params\<rparr>))"
    using t sc
    by (simp add: load_pipeline_def apply_tunables_def Let_def sample_loader_def sample_env_def
          truthy_def token_argument_def)
  have c: "fst (load_pipeline (sample_loader scalar_clustering_params) source_tunables
             (sample_world None)) = Inl type_error_not_iterable"
    by (simp add: r load_failed_def)
  have d: "logged (snd (load_pipeline (sample_loader scalar_clustering_params) source_tunables
             (sample_world None))) =
       [(INFO, ''Loading pyannote-audio pipeline...''),
        (WARNING,
         ''HF_TOKEN not set, attempting to load without token (may fail if model requires authentication)''),
        (INFO, ''Pipeline loaded successfully!''),
        (ERROR, ''Failed to load pipeline: '' @ str_exn type_error_not_iterable)]"
    unfolding r by (simp add: load_failed_def log_to_def sample_world_def)
  have e: "key_exists scalar_segmentation_params ''segmentation'' ''min_duration_off'' = False"
    by (simp add: key_exists_def scalar_segmentation_params_def)
  have p: "parameters (sample_loader scalar_segmentation_params) scalar_segmentation_params
             = scalar_segmentation_params"
    by (simp add: sample_loader_def sample_env_def)
  have f: "fst (load_pipeline (sample_loader scalar_segmentation_params) source_tunables
             (sample_world None)) = Inr ()"
  proof -
    have 1: "from_pretrained (sample_loader scalar_segmentation_params) model_name
               (token_argument (sample_loader scalar_segmentation_params))
             = Inr scalar_segmentation_params"
      by (simp add: sample_loader_def)
    have 2: "parameters (sample_loader scalar_segmentation_params) scalar_segmentation_params
               ''clustering'' = None
             \<or> (\<exists>d. parameters (sample_loader scalar_segmentation_params)
                      scalar_segmentation_params ''clustering'' = Some (PDict d))"
      unfolding p by (simp add: scalar_segmentation_params_def)
    have 3: "instantiate (sample_loader scalar_segmentation_params) scalar_segmentation_params
               hp = Inr hp" for hp
      by (simp add: sample_loader_def sample_env_def)
    show ?thesis
      by (simp add: load_pipeline_result(1) [OF t 1 2] 3)
  qed
  from a b c d e f show ?thesis by blast
qed

end
